theory Spec2Isabelle
  imports Complex_Main "HOL-Library.Sublist"
begin

section \<open>Data model of src/App.tsx\<close>

text \<open>
  The \<^verbatim>\<open>Asset\<close> type is imported from \<^verbatim>\<open>./types\<close>; its fields are read off the object
  literal that \<^verbatim>\<open>handleSearch\<close> builds (lines 63-77).  The elements of \<^verbatim>\<open>timeline\<close> are never
  inspected by this file, so their type stays abstract.  JavaScript numbers are stored, never
  computed with, and are kept as the values their literals denote.  The field \<^verbatim>\<open>id\<close> is named
  \<open>asset_id\<close> and \<^verbatim>\<open>type\<close> is named \<open>asset_type\<close>.
\<close>

typedecl timeline_event

record telemetry_data =
  stress :: real
  strain :: real
  loadCapacity :: real
  vibrationFrequency :: real

record asset =
  asset_id :: string
  name :: string
  asset_type :: string
  coordinates :: "real list"
  riskScore :: real
  age :: real
  lastMaintenance :: string
  loadFactor :: real
  climateImpact :: real
  description :: string
  zone :: string
  timeline :: "timeline_event list"
  telemetry :: telemetry_data

text \<open>
  The provider response, as far as line 58 and the loop body read it:
  \<^verbatim>\<open>response.candidates?.[0]?.groundingMetadata?.groundingChunks\<close>, \<^verbatim>\<open>chunk.maps\<close> and
  \<^verbatim>\<open>chunk.maps.title\<close>.  A missing (undefined) property is \<open>None\<close>.
\<close>

record maps_payload =
  title :: "string option"

record chunk =
  maps :: "maps_payload option"

record grounding_metadata =
  groundingChunks :: "chunk list option"

record candidate =
  groundingMetadata :: "grounding_metadata option"

record response =
  candidates :: "candidate list option"

text \<open>The awaited provider call either throws (rejected promise) or yields a response.\<close>

datatype provider_outcome = Rejected | Fulfilled response

text \<open>The session user returned by \<^verbatim>\<open>db.getCurrentUser()\<close>; only \<^verbatim>\<open>role\<close> is read.\<close>

record user =
  role :: string

text \<open>
  The six \<^verbatim>\<open>useState\<close> cells of \<^verbatim>\<open>App\<close> (lines 23-28), together with the pieces of the
  browser that the component writes: the \<^verbatim>\<open>theme\<close> item of \<^verbatim>\<open>localStorage\<close>, the presence of the
  class \<^verbatim>\<open>dark\<close> on the document element, and the provider calls that have been issued and
  have not settled yet (each recorded by the prompt it was sent with).
\<close>

record app =
  currentTab :: string
  selectedAsset :: "asset option"
  assets :: "asset list"
  isSearching :: bool
  isSidebarOpen :: bool
  isDarkMode :: bool
  theme_item :: "string option"
  dark_class :: bool
  outstanding :: "string list"

section \<open>Theme state (lines 28-46)\<close>

text \<open>JavaScript truthiness of the result of \<^verbatim>\<open>localStorage.getItem\<close>: null and the empty
  string are falsy.\<close>

definition truthy :: "string option \<Rightarrow> bool" where
  "truthy v = (case v of None \<Rightarrow> False | Some t \<Rightarrow> t \<noteq> [])"

text \<open>The value of the initialiser passed to \<^verbatim>\<open>useState\<close> (lines 28-34) when the calls it
  makes return.  \<open>has_window\<close> is \<^verbatim>\<open>typeof window !== 'undefined'\<close>, \<open>stored\<close> is what
  \<^verbatim>\<open>localStorage.getItem('theme')\<close> returns and \<open>prefers_dark\<close> is
  \<^verbatim>\<open>window.matchMedia('(prefers-color-scheme: dark)').matches\<close>.\<close>

definition initial_isDarkMode :: "bool \<Rightarrow> string option \<Rightarrow> bool \<Rightarrow> bool" where
  "initial_isDarkMode has_window stored prefers_dark =
     (if has_window then stored = Some ''dark'' \<or> (\<not> truthy stored \<and> prefers_dark)
      else False)"

text \<open>
  The same initialiser with the outcome of each call explicit.  None of the calls stands in a
  \<^verbatim>\<open>try\<close>: an exception thrown by the storage (access denied) or by the media query (no
  \<^verbatim>\<open>matchMedia\<close>) leaves the initialiser.  The calls are made in the order of lines 30-31:
  the stored item is read first, and the media query is evaluated only when the item is falsy.
\<close>

datatype error = StorageError | MatchMediaError

definition initial_theme :: "bool \<Rightarrow> error + string option \<Rightarrow> error + bool \<Rightarrow> error + bool" where
  "initial_theme has_window getItem matches =
     (if has_window then
        (case getItem of
           Inl e \<Rightarrow> Inl e
         | Inr stored \<Rightarrow>
             if stored = Some ''dark'' then Inr True
             else if \<not> truthy stored then matches
             else Inr False)
      else Inr False)"

text \<open>The effect of lines 36-44, which React runs after mounting and after every render in
  which \<^verbatim>\<open>isDarkMode\<close> differs from its value at the previous render; here for a storage that
  accepts the write.\<close>

definition theme_effect :: "app \<Rightarrow> app" where
  "theme_effect s =
     (if isDarkMode s then s\<lparr>dark_class := True, theme_item := Some ''dark''\<rparr>
      else s\<lparr>dark_class := False, theme_item := Some ''light''\<rparr>)"

definition setIsDarkMode :: "bool \<Rightarrow> app \<Rightarrow> app" where
  "setIsDarkMode b s = s\<lparr>isDarkMode := b\<rparr>"

text \<open>The effect with the outcome of \<^verbatim>\<open>localStorage.setItem\<close> explicit: the call is not
  guarded either, so the effect throws when the storage refuses the write.\<close>

definition theme_effect_outcome :: "bool \<Rightarrow> app \<Rightarrow> error + app" where
  "theme_effect_outcome storage_writable s =
     (if storage_writable then Inr (theme_effect s) else Inl StorageError)"

text \<open>Line 46: \<^verbatim>\<open>() => setIsDarkMode(!isDarkMode)\<close>.  The callback is created by a render and
  negates the \<^verbatim>\<open>isDarkMode\<close> of that render, \<open>rendered\<close>; the setter receives a value, not an
  updater, so the state at the time of the call is not read.\<close>

definition toggleTheme :: "bool \<Rightarrow> app \<Rightarrow> app" where
  "toggleTheme rendered s = setIsDarkMode (\<not> rendered) s"

text \<open>The component as mounted in a browser whose storage and media query answer: initial
  values of lines 23-34, then the effect.  \<open>initialAssets\<close> is the bootstrap list imported
  from \<^verbatim>\<open>./data/mockAssets\<close>.\<close>

definition mount :: "asset list \<Rightarrow> string option \<Rightarrow> bool \<Rightarrow> app" where
  "mount initialAssets stored prefers_dark =
     theme_effect
       \<lparr>currentTab = ''home'', selectedAsset = None, assets = initialAssets,
        isSearching = False, isSidebarOpen = False,
        isDarkMode = initial_isDarkMode True stored prefers_dark,
        theme_item = stored, dark_class = False, outstanding = []\<rparr>"

section \<open>State setters\<close>

definition setCurrentTab :: "string \<Rightarrow> app \<Rightarrow> app" where
  "setCurrentTab tab s = s\<lparr>currentTab := tab\<rparr>"

definition setSelectedAsset :: "asset option \<Rightarrow> app \<Rightarrow> app" where
  "setSelectedAsset a s = s\<lparr>selectedAsset := a\<rparr>"

text \<open>\<^verbatim>\<open>setAssets\<close> is only ever called with an updater function (line 81).\<close>

definition setAssets :: "(asset list \<Rightarrow> asset list) \<Rightarrow> app \<Rightarrow> app" where
  "setAssets f s = s\<lparr>assets := f (assets s)\<rparr>"

definition setIsSearching :: "bool \<Rightarrow> app \<Rightarrow> app" where
  "setIsSearching b s = s\<lparr>isSearching := b\<rparr>"

definition setIsSidebarOpen :: "bool \<Rightarrow> app \<Rightarrow> app" where
  "setIsSidebarOpen b s = s\<lparr>isSidebarOpen := b\<rparr>"

section \<open>Discovery: \<^verbatim>\<open>handleSearch\<close> (lines 48-87)\<close>

text \<open>Template literals print a non-negative integer in decimal, without leading zeros.\<close>

definition digit_char :: "nat \<Rightarrow> char" where
  "digit_char d = ''0123456789'' ! d"

fun string_of_nat :: "nat \<Rightarrow> string" where
  "string_of_nat n =
     (if n < 10 then [digit_char n]
      else string_of_nat (n div 10) @ [digit_char (n mod 10)])"

declare string_of_nat.simps [simp del]

text \<open>Line 64: \<^verbatim>\<open>`ai-${Date.now()}-${index}`\<close>.\<close>

definition make_id :: "nat \<Rightarrow> nat \<Rightarrow> string" where
  "make_id now index = ''ai-'' @ string_of_nat now @ ''-'' @ string_of_nat index"

text \<open>Line 65: \<^verbatim>\<open>chunk.maps.title || "Discovered Infra"\<close>; an empty title is falsy too.\<close>

definition title_or_default :: "string option \<Rightarrow> string" where
  "title_or_default t = (if truthy t then the t else ''Discovered Infra'')"

text \<open>Lines 63-77: the asset pushed for a chunk with a \<^verbatim>\<open>maps\<close> payload.\<close>

definition new_asset :: "nat \<Rightarrow> nat \<Rightarrow> maps_payload \<Rightarrow> asset" where
  "new_asset now index m =
     \<lparr>asset_id = make_id now index,
      name = title_or_default (title m),
      asset_type = ''Road'',
      coordinates = [20.5937, 78.9629],
      riskScore = 25,
      age = 5,
      lastMaintenance = ''2023-12-01'',
      loadFactor = 7.5,
      climateImpact = 6.0,
      description = ''AI-grounded infrastructure discovery via Google Maps.'',
      zone = ''Pan-India'',
      timeline = [],
      telemetry = \<lparr>stress = 10, strain = 50, loadCapacity = 100000,
                   vibrationFrequency = 4.5\<rparr>\<rparr>"

text \<open>Lines 61-79: \<^verbatim>\<open>chunks.forEach((chunk, index) => ...)\<close> pushing onto \<^verbatim>\<open>newAssets\<close>.
  \<open>clock index\<close> is what \<^verbatim>\<open>Date.now()\<close> returns when the callback runs for \<open>index\<close>; it is
  read only for chunks that carry a payload.\<close>

fun forEach_chunks :: "(nat \<Rightarrow> nat) \<Rightarrow> chunk list \<Rightarrow> nat \<Rightarrow> asset list \<Rightarrow> asset list" where
  "forEach_chunks clock [] index newAssets = newAssets"
| "forEach_chunks clock (c # rest) index newAssets =
     forEach_chunks clock rest (Suc index)
       (case maps c of
          None \<Rightarrow> newAssets
        | Some m \<Rightarrow> newAssets @ [new_asset (clock index) index m])"

text \<open>Line 58: the optional chain down to the chunks.\<close>

definition chunks_of :: "response \<Rightarrow> chunk list option" where
  "chunks_of r =
     (case candidates r of
        None \<Rightarrow> None
      | Some cs \<Rightarrow>
          (case cs of
             [] \<Rightarrow> None
           | c0 # _ \<Rightarrow>
               (case groundingMetadata c0 of
                  None \<Rightarrow> None
                | Some g \<Rightarrow> groundingChunks g)))"

text \<open>Line 54: the prompt sent to the provider.\<close>

definition prompt :: "string \<Rightarrow> string" where
  "prompt query =
     ''Locate significant Indian infrastructure assets matching: '' @ [CHR 0x22] @ query
       @ [CHR 0x22] @ ''.''"

text \<open>
  The synchronous part of \<^verbatim>\<open>handleSearch\<close>, up to the \<^verbatim>\<open>await\<close> (lines 49-56).  There is no
  test of \<^verbatim>\<open>isSearching\<close> before line 49.  \<open>issued\<close> is false when constructing the client or
  starting the request throws synchronously: control then passes through \<^verbatim>\<open>catch\<close> and
  \<^verbatim>\<open>finally\<close> at once and no call is left outstanding.
\<close>

definition handleSearch_begin :: "string \<Rightarrow> bool \<Rightarrow> app \<Rightarrow> app" where
  "handleSearch_begin query issued s =
     (let s1 = setIsSearching True s in
      if issued then s1\<lparr>outstanding := outstanding s1 @ [prompt query]\<rparr>
      else setIsSearching False s1)"

text \<open>
  The rest of \<^verbatim>\<open>handleSearch\<close>, run when the awaited call settles (lines 58-86), on the state
  current at that moment: \<^verbatim>\<open>setAssets\<close> receives an updater, the other setters constants.
\<close>

definition handleSearch_resume :: "provider_outcome \<Rightarrow> (nat \<Rightarrow> nat) \<Rightarrow> app \<Rightarrow> app" where
  "handleSearch_resume outcome clock s =
     setIsSearching False
       (case outcome of
          Rejected \<Rightarrow> s
        | Fulfilled r \<Rightarrow>
            (case chunks_of r of
               None \<Rightarrow> s
             | Some chunks \<Rightarrow>
                 if length chunks > 0 then
                   (let newAssets = forEach_chunks clock chunks 0 [] in
                    if length newAssets > 0 then
                      setCurrentTab ''map''
                        (setSelectedAsset (Some (newAssets ! 0))
                          (setAssets (\<lambda>prev. prev @ newAssets) s))
                    else s)
                 else s))"

text \<open>Settling the \<open>k\<close>-th outstanding call: it leaves the list and the continuation runs.\<close>

definition settle :: "nat \<Rightarrow> provider_outcome \<Rightarrow> (nat \<Rightarrow> nat) \<Rightarrow> app \<Rightarrow> app" where
  "settle k outcome clock s =
     (if k < length (outstanding s) then
        handleSearch_resume outcome clock
          (s\<lparr>outstanding := take k (outstanding s) @ drop (Suc k) (outstanding s)\<rparr>)
      else s)"

section \<open>View routing: \<^verbatim>\<open>renderContent\<close> (lines 89-116)\<close>

text \<open>The page component returned by the switch; the login page carries its
  \<^verbatim>\<open>onLoginSuccess\<close> callback.\<close>

datatype page =
    LandingPage | MapPage | AnalysisPage | NewsPage | GovPortalPage
  | LoginPage "user \<Rightarrow> app \<Rightarrow> app"
  | AdminDashboardPage | InitiativesPage | SimulatorPage | ReportPage

text \<open>\<^verbatim>\<open>user?.role === 'admin'\<close>.\<close>

definition is_admin :: "user option \<Rightarrow> bool" where
  "is_admin u = (case u of None \<Rightarrow> False | Some v \<Rightarrow> role v = ''admin'')"

text \<open>Line 106: the callback of the login page of the \<^verbatim>\<open>login\<close> tab.\<close>

definition login_by_role :: "user \<Rightarrow> app \<Rightarrow> app" where
  "login_by_role u s = setCurrentTab (if role u = ''admin'' then ''admin'' else ''home'') s"

text \<open>Line 107: the callback of the login page shown in place of the admin dashboard.\<close>

definition login_to_admin :: "user \<Rightarrow> app \<Rightarrow> app" where
  "login_to_admin u s = setCurrentTab ''admin'' s"

definition renderContent :: "user option \<Rightarrow> app \<Rightarrow> page" where
  "renderContent u s =
     (let tab = currentTab s in
      if tab = ''home'' then LandingPage
      else if tab = ''map'' then MapPage
      else if tab = ''analysis'' then AnalysisPage
      else if tab = ''news'' then NewsPage
      else if tab = ''gov'' then GovPortalPage
      else if tab = ''login'' then LoginPage login_by_role
      else if tab = ''admin'' then
        (if is_admin u then AdminDashboardPage else LoginPage login_to_admin)
      else if tab = ''initiatives'' then InitiativesPage
      else if tab = ''simulator'' then SimulatorPage
      else if tab = ''report'' then ReportPage
      else LandingPage)"

section \<open>The callbacks the component hands out\<close>

text \<open>
  Every way in which the rest of the application can change the state of \<^verbatim>\<open>App\<close>:
  \<^item> \<open>TabChange\<close>: \<^verbatim>\<open>onTabChange\<close> of the navbar and the sidebar (lines 120, 122);
  \<^item> \<open>Explore\<close>, \<open>HowItWorks\<close>: the landing page (lines 96, 111);
  \<^item> \<open>SelectAsset\<close>: \<^verbatim>\<open>onSelectAsset\<close> of the map (line 99); \<open>ClosePanel\<close>: line 100;
  \<^item> \<open>GovSelectAsset\<close>: \<^verbatim>\<open>onSelectAsset\<close> of the government portal (line 105);
  \<^item> \<open>LoginSuccess u v\<close>: \<^verbatim>\<open>onLoginSuccess(v)\<close> of the login page of the last render, in
    which \<^verbatim>\<open>db.getCurrentUser()\<close> was \<open>u\<close>;
  \<^item> \<open>ToggleTheme rendered\<close>: the callback of line 46 made by a render in which
    \<^verbatim>\<open>isDarkMode\<close> was \<open>rendered\<close>, followed by the effect of lines 36-44 when the value
    has changed;
  \<^item> \<open>OpenSidebar\<close>, \<open>CloseSidebar\<close>: lines 120, 122;
  \<^item> \<open>Search\<close>: \<^verbatim>\<open>onSearchInfrastructure\<close> (line 99) up to the \<^verbatim>\<open>await\<close>;
  \<^item> \<open>Settle\<close>: an outstanding provider call settles.
\<close>

datatype event =
    TabChange string
  | Explore
  | HowItWorks
  | SelectAsset "asset option"
  | ClosePanel
  | GovSelectAsset asset
  | LoginSuccess "user option" user
  | ToggleTheme bool
  | OpenSidebar
  | CloseSidebar
  | Search string bool
  | Settle nat provider_outcome "nat \<Rightarrow> nat"

fun step :: "app \<Rightarrow> event \<Rightarrow> app" where
  "step s (TabChange tab) = setCurrentTab tab s"
| "step s Explore = setCurrentTab ''map'' s"
| "step s HowItWorks = setCurrentTab ''analysis'' s"
| "step s (SelectAsset a) = setSelectedAsset a s"
| "step s ClosePanel = setSelectedAsset None s"
| "step s (GovSelectAsset a) = setCurrentTab ''map'' (setSelectedAsset (Some a) s)"
| "step s (LoginSuccess u v) =
     (case renderContent u s of LoginPage onLoginSuccess \<Rightarrow> onLoginSuccess v s | _ \<Rightarrow> s)"
| "step s (ToggleTheme rendered) =
     (let s' = toggleTheme rendered s in
      if isDarkMode s' \<noteq> isDarkMode s then theme_effect s' else s')"
| "step s OpenSidebar = setIsSidebarOpen True s"
| "step s CloseSidebar = setIsSidebarOpen False s"
| "step s (Search query issued) = handleSearch_begin query issued s"
| "step s (Settle k outcome clock) = settle k outcome clock s"

definition run :: "app \<Rightarrow> event list \<Rightarrow> app" where
  "run s es = foldl step s es"

section \<open>Notions used to state the properties\<close>

text \<open>The chunks of a response that carry a \<^verbatim>\<open>maps\<close> payload, each with its position in the
  response, and the assets they give rise to, in that order.\<close>

definition usable :: "chunk list \<Rightarrow> (nat \<times> chunk) list" where
  "usable cs = filter (\<lambda>(i, c). maps c \<noteq> None) (enumerate 0 cs)"

definition synthesized :: "(nat \<Rightarrow> nat) \<Rightarrow> chunk list \<Rightarrow> asset list" where
  "synthesized clock cs = map (\<lambda>(i, c). new_asset (clock i) i (the (maps c))) (usable cs)"

text \<open>A settled call that yields nothing to merge: the call was rejected, the optional chain
  of line 58 ended in undefined, or no chunk carries a payload (an empty list included).\<close>

definition no_usable_chunks :: "provider_outcome \<Rightarrow> bool" where
  "no_usable_chunks outcome =
     (case outcome of
        Rejected \<Rightarrow> True
      | Fulfilled r \<Rightarrow>
          (case chunks_of r of
             None \<Rightarrow> True
           | Some cs \<Rightarrow> list_all (\<lambda>c. maps c = None) cs))"

text \<open>The Selection refers to an asset of the store (assets are compared by value).\<close>

definition selection_valid :: "app \<Rightarrow> bool" where
  "selection_valid s =
     (case selectedAsset s of None \<Rightarrow> True | Some a \<Rightarrow> a \<in> set (assets s))"

text \<open>An event selects from the store when the asset it passes to \<^verbatim>\<open>setSelectedAsset\<close> is in
  the store at that moment; a run does when each of its events does, in the state it meets.\<close>

definition from_store :: "app \<Rightarrow> event \<Rightarrow> bool" where
  "from_store s e =
     (case e of
        SelectAsset (Some a) \<Rightarrow> a \<in> set (assets s)
      | GovSelectAsset a \<Rightarrow> a \<in> set (assets s)
      | _ \<Rightarrow> True)"

fun selects_from_store :: "app \<Rightarrow> event list \<Rightarrow> bool" where
  "selects_from_store s [] = True"
| "selects_from_store s (e # es) = (from_store s e \<and> selects_from_store (step s e) es)"

subsection \<open>Sample data\<close>

definition sample_asset :: asset where
  "sample_asset =
     \<lparr>asset_id = ''a1'', name = ''Howrah Bridge'', asset_type = ''Bridge'',
      coordinates = [22.585, 88.3468], riskScore = 60, age = 80,
      lastMaintenance = ''2022-05-01'', loadFactor = 8, climateImpact = 7,
      description = ''Cantilever bridge'', zone = ''East'', timeline = [],
      telemetry = \<lparr>stress = 1, strain = 2, loadCapacity = 3, vibrationFrequency = 4\<rparr>\<rparr>"

definition response_of :: "chunk list \<Rightarrow> response" where
  "response_of cs =
     \<lparr>candidates = Some [\<lparr>groundingMetadata = Some \<lparr>groundingChunks = Some cs\<rparr>\<rparr>]\<rparr>"

definition sample_chunks :: "chunk list" where
  "sample_chunks =
     [\<lparr>maps = None\<rparr>, \<lparr>maps = Some \<lparr>title = Some ''Bridge X''\<rparr>\<rparr>,
      \<lparr>maps = Some \<lparr>title = None\<rparr>\<rparr>]"

section \<open>The loop over the chunks\<close>

lemma forEach_chunks_enumerate:
  "forEach_chunks clock cs i acc =
     acc @ map (\<lambda>(i, c). new_asset (clock i) i (the (maps c)))
             (filter (\<lambda>(i, c). maps c \<noteq> None) (enumerate i cs))"
  by (induction cs arbitrary: i acc) (auto split: option.splits)

lemma forEach_chunks_synthesized: "forEach_chunks clock cs 0 [] = synthesized clock cs"
  by (simp add: forEach_chunks_enumerate synthesized_def usable_def)

lemma snd_filter_enumerate:
  "map snd (filter (\<lambda>(i, c). P c) (enumerate n cs)) = filter P cs"
  by (induction cs arbitrary: n) simp_all

lemma map_snd_usable: "map snd (usable cs) = filter (\<lambda>c. maps c \<noteq> None) cs"
  by (simp add: usable_def snd_filter_enumerate)

lemma usable_Nil_iff: "usable cs = [] \<longleftrightarrow> (\<forall>c\<in>set cs. maps c = None)"
proof -
  have "usable cs = [] \<longleftrightarrow> map snd (usable cs) = []" by simp
  also have "\<dots> \<longleftrightarrow> (\<forall>c\<in>set cs. maps c = None)"
    unfolding map_snd_usable filter_empty_conv by simp
  finally show ?thesis .
qed

lemma chunks_of_response_of: "chunks_of (response_of cs) = Some cs"
  by (simp add: chunks_of_def response_of_def)

lemma forEach_chunks_Nil_iff:
  "forEach_chunks clock cs 0 [] = [] \<longleftrightarrow> (\<forall>c\<in>set cs. maps c = None)"
  by (simp add: forEach_chunks_synthesized synthesized_def usable_Nil_iff)

lemma resume_no_usable:
  "no_usable_chunks outcome \<Longrightarrow> handleSearch_resume outcome clock s = setIsSearching False s"
  by (auto simp: no_usable_chunks_def handleSearch_resume_def forEach_chunks_Nil_iff
        list_all_iff split: provider_outcome.splits option.splits)

lemma resume_usable:
  assumes "chunks_of r = Some cs" and "\<exists>c\<in>set cs. maps c \<noteq> None"
  shows "handleSearch_resume (Fulfilled r) clock s =
           setIsSearching False
             (setCurrentTab ''map''
               (setSelectedAsset (Some (hd (synthesized clock cs)))
                 (setAssets (\<lambda>prev. prev @ synthesized clock cs) s)))"
    and "synthesized clock cs \<noteq> []"
proof -
  from assms(2) have ne: "forEach_chunks clock cs 0 [] \<noteq> []"
    by (simp add: forEach_chunks_Nil_iff)
  then show "synthesized clock cs \<noteq> []"
    by (simp add: forEach_chunks_synthesized)
  from assms(2) have "cs \<noteq> []" by auto
  with ne assms(1) show "handleSearch_resume (Fulfilled r) clock s =
           setIsSearching False
             (setCurrentTab ''map''
               (setSelectedAsset (Some (hd (synthesized clock cs)))
                 (setAssets (\<lambda>prev. prev @ synthesized clock cs) s)))"
    by (simp add: handleSearch_resume_def Let_def forEach_chunks_synthesized hd_conv_nth)
qed

section \<open>Decimal strings and generated ids\<close>

lemma digit_val: "d < 10 \<Longrightarrow> of_char (digit_char d) = 48 + d"
proof -
  assume "d < 10"
  then have "d \<in> {0,1,2,3,4,5,6,7,8,9}" by auto
  then show ?thesis by (elim insertE emptyE) (simp_all add: digit_char_def)
qed

lemma digit_char_inj:
  assumes "d < 10" and "e < 10" and "digit_char d = digit_char e"
  shows "d = e"
proof -
  have "(of_char (digit_char d) :: nat) = of_char (digit_char e)"
    by (simp only: assms(3))
  then have "48 + d = 48 + e"
    by (simp only: digit_val [OF assms(1)] digit_val [OF assms(2)])
  then show ?thesis by simp
qed

lemma digit_char_not_dash: "d < 10 \<Longrightarrow> CHR ''-'' \<noteq> digit_char d"
proof
  assume "d < 10" and "CHR ''-'' = digit_char d"
  then have "(of_char (CHR ''-'') :: nat) = 48 + d"
    by (simp only: digit_val)
  then show False by simp
qed

lemma string_of_nat_no_dash: "CHR ''-'' \<notin> set (string_of_nat n)"
proof (induction n rule: string_of_nat.induct)
  case (1 n)
  show ?case
  proof (cases "n < 10")
    case True
    then show ?thesis by (simp add: string_of_nat.simps [of n] digit_char_not_dash)
  next
    case False
    then show ?thesis using 1 by (simp add: string_of_nat.simps [of n] digit_char_not_dash)
  qed
qed

lemma string_of_nat_not_Nil: "string_of_nat n \<noteq> []"
  by (simp add: string_of_nat.simps [of n])

lemma string_of_nat_inj: "string_of_nat n = string_of_nat m \<Longrightarrow> n = m"
proof (induction n arbitrary: m rule: string_of_nat.induct)
  case (1 n)
  show ?case
  proof (cases "n < 10")
    case n: True
    show ?thesis
    proof (cases "m < 10")
      case True
      with n 1(2) show ?thesis
        by (simp add: string_of_nat.simps [of n] string_of_nat.simps [of m] digit_char_inj)
    next
      case False
      with n 1(2) show ?thesis
        by (simp add: string_of_nat.simps [of n] string_of_nat.simps [of m] string_of_nat_not_Nil
            string_of_nat_not_Nil [symmetric])
    qed
  next
    case n: False
    show ?thesis
    proof (cases "m < 10")
      case True
      with n 1(2) show ?thesis
        by (simp add: string_of_nat.simps [of n] string_of_nat.simps [of m] string_of_nat_not_Nil
            string_of_nat_not_Nil [symmetric])
    next
      case False
      with n 1(2) have a: "string_of_nat (n div 10) = string_of_nat (m div 10)"
        and b: "digit_char (n mod 10) = digit_char (m mod 10)"
        by (simp_all add: string_of_nat.simps [of n] string_of_nat.simps [of m])
      from 1(1) [OF n a] have "n div 10 = m div 10" .
      moreover from b have "n mod 10 = m mod 10" by (simp add: digit_char_inj)
      ultimately show ?thesis by (metis div_mult_mod_eq)
    qed
  qed
qed

lemma split_at_dash:
  assumes "xs @ CHR ''-'' # ys = xs' @ CHR ''-'' # ys'"
    and "CHR ''-'' \<notin> set xs" and "CHR ''-'' \<notin> set xs'"
  shows "xs = xs' \<and> ys = ys'"
proof -
  have "takeWhile (\<lambda>c. c \<noteq> CHR ''-'') (xs @ CHR ''-'' # ys) = xs"
    using assms(2) by (subst takeWhile_append2) auto
  moreover have "takeWhile (\<lambda>c. c \<noteq> CHR ''-'') (xs' @ CHR ''-'' # ys') = xs'"
    using assms(3) by (subst takeWhile_append2) auto
  ultimately have "xs = xs'" using assms(1) by simp
  with assms(1) show ?thesis by simp
qed

lemma make_id_inj: "make_id t i = make_id t' i' \<longleftrightarrow> t = t' \<and> i = i'"
proof
  assume "make_id t i = make_id t' i'"
  then have "string_of_nat t @ CHR ''-'' # string_of_nat i
             = string_of_nat t' @ CHR ''-'' # string_of_nat i'"
    by (simp add: make_id_def)
  from split_at_dash [OF this string_of_nat_no_dash string_of_nat_no_dash]
  show "t = t' \<and> i = i'" by (auto dest: string_of_nat_inj)
qed simp

lemma asset_id_synthesized:
  "map asset_id (synthesized clock cs) = map ((\<lambda>i. make_id (clock i) i) \<circ> fst) (usable cs)"
  by (simp add: synthesized_def new_asset_def split_def)

lemma distinct_synthesized: "distinct (map asset_id (synthesized clock cs))"
proof -
  have "distinct (map fst (usable cs))"
    unfolding usable_def by (rule distinct_map_filter) simp
  moreover have "distinct (map (\<lambda>i. make_id (clock i) i) ys)" if "distinct ys" for ys
    using that by (simp add: distinct_map inj_on_def make_id_inj)
  ultimately have "distinct (map (\<lambda>i. make_id (clock i) i) (map fst (usable cs)))"
    by blast
  then show ?thesis
    by (simp only: asset_id_synthesized map_map)
qed

section \<open>The mounted component and the sample data\<close>

lemma mount_fields:
  "currentTab (mount as stored os) = ''home''"
  "selectedAsset (mount as stored os) = None"
  "assets (mount as stored os) = as"
  "isSearching (mount as stored os) = False"
  "outstanding (mount as stored os) = []"
  "isDarkMode (mount as stored os) = initial_isDarkMode True stored os"
  by (simp_all add: mount_def theme_effect_def)

lemma sample_chunks_usable:
  "chunks_of (response_of sample_chunks) = Some sample_chunks"
  "\<exists>c\<in>set sample_chunks. maps c \<noteq> None"
  by (simp_all add: chunks_of_response_of sample_chunks_def)

lemma synthesized_sample:
  "synthesized clock sample_chunks =
     [new_asset (clock 1) 1 \<lparr>title = Some ''Bridge X''\<rparr>, new_asset (clock 2) 2 \<lparr>title = None\<rparr>]"
  by (simp add: synthesized_def usable_def sample_chunks_def enumerate_eq_zip upt_rec
        numeral_2_eq_2)

section \<open>Discovery always clears the in-flight flag\<close>

lemma isSearching_resume: "isSearching (handleSearch_resume outcome clock s) = False"
  by (simp add: handleSearch_resume_def setIsSearching_def)

text \<open>
  Claim C4.  On every exit path of a discovery call the flag \<^verbatim>\<open>isSearching\<close> is false once
  the call has completed: when the awaited provider call is rejected, when it is fulfilled
  with or without usable chunks (whatever the response and the clock), and when the call
  throws before anything is awaited.
\<close>

theorem search_flag_reset_on_every_exit:
  "isSearching (handleSearch_resume Rejected clock s) = False
   \<and> isSearching (handleSearch_resume (Fulfilled r) clock s) = False
   \<and> isSearching (handleSearch_begin query False s) = False
   \<and> isSearching
        (settle (length (outstanding s)) outcome clock (handleSearch_begin query True s))
       = False"
  by (simp add: isSearching_resume handleSearch_begin_def setIsSearching_def settle_def Let_def)

section \<open>Discovery that finds nothing\<close>

text \<open>
  Claim C2.  When the provider call fails, or its response has no chunk with a grounding
  payload, the store, the Selection and the current view are as they were once the call has
  completed.  This holds for the continuation, whose only write is to \<^verbatim>\<open>isSearching\<close>, for
  the start of the call, whether it throws before anything is awaited or issues the request,
  and for the whole call: issuing the request and then settling it leaves the three, and
  the list of outstanding calls, as they were before \<^verbatim>\<open>handleSearch\<close> was called.
\<close>

theorem failed_or_empty_discovery_changes_nothing:
  assumes "no_usable_chunks outcome"
  shows "assets (handleSearch_resume outcome clock s) = assets s
       \<and> selectedAsset (handleSearch_resume outcome clock s) = selectedAsset s
       \<and> currentTab (handleSearch_resume outcome clock s) = currentTab s
       \<and> handleSearch_resume outcome clock s = setIsSearching False s
       \<and> assets (handleSearch_begin query False s) = assets s
       \<and> selectedAsset (handleSearch_begin query False s) = selectedAsset s
       \<and> currentTab (handleSearch_begin query False s) = currentTab s
       \<and> assets (handleSearch_begin query True s) = assets s
       \<and> selectedAsset (handleSearch_begin query True s) = selectedAsset s
       \<and> currentTab (handleSearch_begin query True s) = currentTab s
       \<and> assets (settle (length (outstanding s)) outcome clock
             (handleSearch_begin query True s)) = assets s
       \<and> selectedAsset (settle (length (outstanding s)) outcome clock
             (handleSearch_begin query True s)) = selectedAsset s
       \<and> currentTab (settle (length (outstanding s)) outcome clock
             (handleSearch_begin query True s)) = currentTab s
       \<and> outstanding (settle (length (outstanding s)) outcome clock
             (handleSearch_begin query True s)) = outstanding s"
  by (simp add: resume_no_usable [OF assms] setIsSearching_def handleSearch_begin_def
        settle_def Let_def)

theorem failed_or_empty_discovery_witness:
  "no_usable_chunks Rejected
   \<and> no_usable_chunks (Fulfilled (response_of [\<lparr>maps = None\<rparr>]))
   \<and> no_usable_chunks (Fulfilled \<lparr>candidates = None\<rparr>)
   \<and> assets (handleSearch_resume Rejected (\<lambda>i. 1700000000000)
        (mount [sample_asset] None False)) = [sample_asset]
   \<and> assets (handleSearch_resume (Fulfilled (response_of [\<lparr>maps = None\<rparr>])) (\<lambda>i. 1700000000000)
        (mount [sample_asset] None False)) = [sample_asset]
   \<and> currentTab (handleSearch_resume (Fulfilled \<lparr>candidates = None\<rparr>) (\<lambda>i. 1700000000000)
        (mount [sample_asset] None False)) = ''home''
   \<and> currentTab (handleSearch_begin ''asdkjh'' True (mount [sample_asset] None False)) = ''home''
   \<and> assets (run (mount [sample_asset] None False)
        [Search ''asdkjh'' True,
         Settle 0 (Fulfilled (response_of [\<lparr>maps = None\<rparr>])) (\<lambda>i. 1700000000000)])
       = [sample_asset]
   \<and> selectedAsset (run (mount [sample_asset] None False)
        [Search ''asdkjh'' True,
         Settle 0 (Fulfilled (response_of [\<lparr>maps = None\<rparr>])) (\<lambda>i. 1700000000000)])
       = None
   \<and> currentTab (run (mount [sample_asset] None False)
        [Search ''asdkjh'' True,
         Settle 0 (Fulfilled (response_of [\<lparr>maps = None\<rparr>])) (\<lambda>i. 1700000000000)])
       = ''home''"
proof -
  let ?s = "mount [sample_asset] None False"
  let ?clock = "\<lambda>i::nat. 1700000000000::nat"
  let ?empty = "Fulfilled (response_of [\<lparr>maps = None\<rparr>])"
  have a: "no_usable_chunks Rejected"
    by (simp add: no_usable_chunks_def)
  have b: "no_usable_chunks ?empty"
    by (simp add: no_usable_chunks_def chunks_of_response_of)
  have c: "no_usable_chunks (Fulfilled \<lparr>candidates = None\<rparr>)"
    by (simp add: no_usable_chunks_def chunks_of_def)
  note ta = failed_or_empty_discovery_changes_nothing
      [OF a, where clock = ?clock and s = ?s and query = "''asdkjh''"]
  note tb = failed_or_empty_discovery_changes_nothing
      [OF b, where clock = ?clock and s = ?s and query = "''asdkjh''"]
  note tc = failed_or_empty_discovery_changes_nothing
      [OF c, where clock = ?clock and s = ?s and query = "''asdkjh''"]
  have r: "run ?s [Search ''asdkjh'' True, Settle 0 ?empty ?clock]
      = settle (length (outstanding ?s)) ?empty ?clock (handleSearch_begin ''asdkjh'' True ?s)"
    by (simp add: run_def mount_fields)
  have d: "assets (handleSearch_resume Rejected ?clock ?s) = [sample_asset]"
    using ta by (simp add: mount_fields setIsSearching_def)
  have e: "assets (handleSearch_resume ?empty ?clock ?s) = [sample_asset]"
    using tb by (simp add: mount_fields setIsSearching_def)
  have f: "currentTab (handleSearch_resume (Fulfilled \<lparr>candidates = None\<rparr>) ?clock ?s) = ''home''"
    using tc by (simp add: mount_fields setIsSearching_def)
  have g: "currentTab (handleSearch_begin ''asdkjh'' True ?s) = ''home''"
    using tb by (simp add: mount_fields setIsSearching_def)
  have h: "assets (run ?s [Search ''asdkjh'' True, Settle 0 ?empty ?clock]) = [sample_asset]"
    "selectedAsset (run ?s [Search ''asdkjh'' True, Settle 0 ?empty ?clock]) = None"
    "currentTab (run ?s [Search ''asdkjh'' True, Settle 0 ?empty ?clock]) = ''home''"
    using tb unfolding r by (simp_all add: mount_fields setIsSearching_def)
  show ?thesis by (intro conjI a b c d e f g h)
qed

section \<open>Discovery that finds assets\<close>

text \<open>
  Claim C3.  When the response has at least one chunk with a grounding payload, the assets
  appended to the store are those synthesized from exactly the chunks with a payload, in the
  order of the response and after all existing entries, which keep their order; the Selection
  becomes the first appended asset and the current view becomes the map.
\<close>

theorem usable_chunks_are_appended_and_selected:
  assumes "chunks_of r = Some cs" and "\<exists>c\<in>set cs. maps c \<noteq> None"
  shows "assets (handleSearch_resume (Fulfilled r) clock s) = assets s @ synthesized clock cs
       \<and> map snd (usable cs) = filter (\<lambda>c. maps c \<noteq> None) cs
       \<and> map name (synthesized clock cs)
           = map (\<lambda>c. title_or_default (title (the (maps c)))) (filter (\<lambda>c. maps c \<noteq> None) cs)
       \<and> synthesized clock cs \<noteq> []
       \<and> selectedAsset (handleSearch_resume (Fulfilled r) clock s) = Some (hd (synthesized clock cs))
       \<and> currentTab (handleSearch_resume (Fulfilled r) clock s) = ''map''"
proof -
  have "map name (synthesized clock cs)
          = map (\<lambda>c. title_or_default (title (the (maps c)))) (map snd (usable cs))"
    by (simp add: synthesized_def new_asset_def split_def)
  then show ?thesis
    by (simp add: resume_usable [OF assms] map_snd_usable setIsSearching_def setCurrentTab_def
          setSelectedAsset_def setAssets_def)
qed

theorem usable_chunks_witness:
  "chunks_of (response_of sample_chunks) = Some sample_chunks
   \<and> (\<exists>c\<in>set sample_chunks. maps c \<noteq> None)
   \<and> assets (handleSearch_resume (Fulfilled (response_of sample_chunks)) (\<lambda>i. 1700000000000)
        (mount [sample_asset] None False))
      = [sample_asset, new_asset 1700000000000 1 \<lparr>title = Some ''Bridge X''\<rparr>,
         new_asset 1700000000000 2 \<lparr>title = None\<rparr>]
   \<and> selectedAsset (handleSearch_resume (Fulfilled (response_of sample_chunks)) (\<lambda>i. 1700000000000)
        (mount [sample_asset] None False))
      = Some (new_asset 1700000000000 1 \<lparr>title = Some ''Bridge X''\<rparr>)
   \<and> map name (synthesized (\<lambda>i. 1700000000000) sample_chunks) = [''Bridge X'', ''Discovered Infra'']
   \<and> currentTab (handleSearch_resume (Fulfilled (response_of sample_chunks)) (\<lambda>i. 1700000000000)
        (mount [sample_asset] None False)) = ''map''"
proof -
  note t = usable_chunks_are_appended_and_selected [OF sample_chunks_usable,
      of "\<lambda>i. 1700000000000" "mount [sample_asset] None False"]
  have c1: "assets (handleSearch_resume (Fulfilled (response_of sample_chunks)) (\<lambda>i. 1700000000000)
        (mount [sample_asset] None False))
      = [sample_asset, new_asset 1700000000000 1 \<lparr>title = Some ''Bridge X''\<rparr>,
         new_asset 1700000000000 2 \<lparr>title = None\<rparr>]"
    using t by (simp add: synthesized_sample mount_fields)
  have c2: "selectedAsset (handleSearch_resume (Fulfilled (response_of sample_chunks)) (\<lambda>i. 1700000000000)
        (mount [sample_asset] None False))
      = Some (new_asset 1700000000000 1 \<lparr>title = Some ''Bridge X''\<rparr>)"
    using t by (simp add: synthesized_sample)
  have c3: "map name (synthesized (\<lambda>i. 1700000000000) sample_chunks)
      = [''Bridge X'', ''Discovered Infra'']"
    using t by (simp add: sample_chunks_def title_or_default_def truthy_def)
  have c4: "currentTab (handleSearch_resume (Fulfilled (response_of sample_chunks)) (\<lambda>i. 1700000000000)
        (mount [sample_asset] None False)) = ''map''"
    using t by simp
  show ?thesis
    by (intro conjI sample_chunks_usable c1 c2 c3 c4)
qed

section \<open>Identity of discovered assets\<close>

lemma asset_id_new_asset: "asset_id (new_asset t i m) = make_id t i"
  by (simp add: new_asset_def)

lemma synthesized_ids_subset:
  "set (map asset_id (synthesized clock cs)) \<subseteq> (\<lambda>i. make_id (clock i) i) ` {..<length cs}"
proof -
  have "fst ` set (usable cs) \<subseteq> {..<length cs}"
    by (auto simp: usable_def in_set_enumerate_eq)
  then show ?thesis
    unfolding asset_id_synthesized by (auto simp: image_iff) 
qed

lemma resume_assets:
  "assets (handleSearch_resume outcome clock s) = assets s
   \<or> (\<exists>r cs. outcome = Fulfilled r \<and> chunks_of r = Some cs
        \<and> assets (handleSearch_resume outcome clock s) = assets s @ synthesized clock cs)"
  by (auto simp: handleSearch_resume_def Let_def forEach_chunks_synthesized setIsSearching_def
        setCurrentTab_def setSelectedAsset_def setAssets_def
        split: provider_outcome.splits option.splits)

text \<open>
  Claim C5, as the code has it.  The ids generated within one discovery call are pairwise
  distinct, whatever the clock returns, and two generated ids are equal exactly when both the
  clock reading and the index are.  The store is never consulted when an id is generated: its
  ids stay pairwise distinct after a discovery when they were so before and none of them is
  the id \<^verbatim>\<open>ai-<clock reading>-<index>\<close> of an index of the response.
\<close>

theorem generated_ids_unique_within_batch:
  assumes "distinct (map asset_id (assets s))"
    and "\<forall>a\<in>set (assets s). \<forall>i<length cs. asset_id a \<noteq> make_id (clock i) i"
    and "chunks_of r = Some cs"
  shows "distinct (map asset_id (forEach_chunks clock cs 0 []))
       \<and> (make_id t i = make_id t' i' \<longleftrightarrow> t = t' \<and> i = i')
       \<and> distinct (map asset_id (assets (handleSearch_resume (Fulfilled r) clock s)))"
proof -
  have batch: "distinct (map asset_id (forEach_chunks clock cs 0 []))"
    by (simp only: forEach_chunks_synthesized distinct_synthesized)
  have disj: "set (map asset_id (assets s)) \<inter> set (map asset_id (synthesized clock cs)) = {}"
  proof (rule ccontr)
    assume "set (map asset_id (assets s)) \<inter> set (map asset_id (synthesized clock cs)) \<noteq> {}"
    then obtain x where x1: "x \<in> set (map asset_id (assets s))"
      and x2: "x \<in> set (map asset_id (synthesized clock cs))"
      by blast
    from x1 obtain a where a: "a \<in> set (assets s)" "x = asset_id a"
      by (auto simp only: set_map)
    from x2 synthesized_ids_subset [of clock cs]
    obtain i where i: "i < length cs" "x = make_id (clock i) i"
      by blast
    from assms(2) a(1) i(1) have "asset_id a \<noteq> make_id (clock i) i"
      by blast
    with a(2) i(2) show False by simp
  qed
  have app: "distinct (map asset_id (assets s @ synthesized clock cs))"
    using assms(1) disj distinct_synthesized [of clock cs]
    by (simp only: map_append distinct_append simp_thms)
  have "distinct (map asset_id (assets (handleSearch_resume (Fulfilled r) clock s)))"
    using resume_assets [of "Fulfilled r" clock s]
  proof
    assume "assets (handleSearch_resume (Fulfilled r) clock s) = assets s"
    with assms(1) show ?thesis by simp
  next
    assume "\<exists>r' cs'. Fulfilled r = Fulfilled r' \<and> chunks_of r' = Some cs'
        \<and> assets (handleSearch_resume (Fulfilled r) clock s) = assets s @ synthesized clock cs'"
    with assms(3) have "assets (handleSearch_resume (Fulfilled r) clock s)
        = assets s @ synthesized clock cs"
      by auto
    with app show ?thesis by simp
  qed
  with batch show ?thesis
    by (simp only: make_id_inj simp_thms)
qed

theorem generated_ids_witness:
  "distinct (map asset_id (assets (mount [sample_asset] None False)))
   \<and> chunks_of (response_of sample_chunks) = Some sample_chunks
   \<and> distinct (map asset_id (assets
        (handleSearch_resume (Fulfilled (response_of sample_chunks)) (\<lambda>i. 1700000000000)
          (mount [sample_asset] None False))))"
proof -
  have a: "distinct (map asset_id (assets (mount [sample_asset] None False)))"
    by (simp add: mount_fields)
  have b: "\<forall>a\<in>set (assets (mount [sample_asset] None False)).
             \<forall>i<length sample_chunks. asset_id a \<noteq> make_id 1700000000000 i"
    by (simp add: mount_fields sample_asset_def make_id_def)
  from generated_ids_unique_within_batch [OF a b sample_chunks_usable(1)]
  have "distinct (map asset_id (assets
        (handleSearch_resume (Fulfilled (response_of sample_chunks)) (\<lambda>i. 1700000000000)
          (mount [sample_asset] None False))))"
    by blast
  with a sample_chunks_usable(1) show ?thesis by blast
qed

text \<open>
  Two searches are started one after the other and both responses arrive within the same
  millisecond: each yields the id \<^verbatim>\<open>ai-1700000000000-0\<close>, and the store holds it twice.
\<close>

theorem same_millisecond_ids_collide:
  "\<not> distinct (map asset_id (assets
       (run (mount [] None False)
         [Search ''bridges'' True, Search ''flyovers'' True,
          Settle 0 (Fulfilled (response_of [\<lparr>maps = Some \<lparr>title = Some ''Bridge X''\<rparr>\<rparr>]))
            (\<lambda>i. 1700000000000),
          Settle 0 (Fulfilled (response_of [\<lparr>maps = Some \<lparr>title = Some ''Flyover Y''\<rparr>\<rparr>]))
            (\<lambda>i. 1700000000000)])))"
  by (simp add: run_def mount_def theme_effect_def handleSearch_begin_def settle_def
        handleSearch_resume_def chunks_of_response_of setIsSearching_def setCurrentTab_def
        setSelectedAsset_def setAssets_def Let_def asset_id_new_asset)

section \<open>Searching while a search is in flight\<close>

text \<open>
  Claim C1, as the code has it.  \<^verbatim>\<open>handleSearch\<close> does not look at \<^verbatim>\<open>isSearching\<close>: a call made
  while the flag is true is carried out like any other.  The flag stays true and, unless the
  client throws before the request is sent, one more provider call is outstanding; the store,
  the Selection and the view are not touched at this point.
\<close>

theorem search_while_searching_is_issued:
  assumes "isSearching s"
  shows "isSearching (handleSearch_begin query True s)
       \<and> outstanding (handleSearch_begin query True s) = outstanding s @ [prompt query]
       \<and> length (outstanding (handleSearch_begin query True s)) = Suc (length (outstanding s))
       \<and> assets (handleSearch_begin query True s) = assets s
       \<and> selectedAsset (handleSearch_begin query True s) = selectedAsset s
       \<and> currentTab (handleSearch_begin query True s) = currentTab s"
  by (simp add: handleSearch_begin_def setIsSearching_def Let_def)

theorem search_while_searching_witness:
  "isSearching (handleSearch_begin ''bridges'' True (mount [] None False))
   \<and> outstanding (handleSearch_begin ''flyovers'' True
        (handleSearch_begin ''bridges'' True (mount [] None False)))
      = [prompt ''bridges'', prompt ''flyovers'']"
proof -
  have a: "isSearching (handleSearch_begin ''bridges'' True (mount [] None False))"
    by (simp add: handleSearch_begin_def setIsSearching_def Let_def)
  have b: "outstanding (handleSearch_begin ''bridges'' True (mount [] None False))
      = [prompt ''bridges'']"
    by (simp add: handleSearch_begin_def setIsSearching_def Let_def mount_fields)
  from search_while_searching_is_issued [OF a, of "''flyovers''"] b
  have "outstanding (handleSearch_begin ''flyovers'' True
        (handleSearch_begin ''bridges'' True (mount [] None False)))
      = [prompt ''bridges'', prompt ''flyovers'']"
    by simp
  with a show ?thesis by (intro conjI)
qed

text \<open>A second search started while the first is in flight is not rejected: two provider
  calls are outstanding at once.\<close>

theorem two_searches_outstanding:
  "isSearching (run (mount [] None False) [Search ''bridges'' True])
   \<and> length (outstanding (run (mount [] None False)
        [Search ''bridges'' True, Search ''flyovers'' True])) = 2"
  by (simp add: run_def handleSearch_begin_def setIsSearching_def Let_def mount_fields)

section \<open>The admin gate\<close>

lemma renderContent_admin:
  "currentTab s = ''admin'' \<Longrightarrow>
     renderContent u s = (if is_admin u then AdminDashboardPage else LoginPage login_to_admin)"
  by (simp add: renderContent_def)

lemma renderContent_login: "currentTab s = ''login'' \<Longrightarrow> renderContent u s = LoginPage login_by_role"
  by (simp add: renderContent_def)

text \<open>
  Claim C6, as the code has it.  A request for the admin view always stores \<^verbatim>\<open>admin\<close> as the
  current tab.  The gate is in what is rendered for that tab: the admin dashboard when the
  session user has the role \<^verbatim>\<open>admin\<close>, and otherwise (no user, or another role) a login page
  and never the dashboard.
\<close>

theorem admin_request_renders_login_without_admin_role:
  "currentTab (step s (TabChange ''admin'')) = ''admin''
   \<and> (is_admin u \<longrightarrow> renderContent u (step s (TabChange ''admin'')) = AdminDashboardPage)
   \<and> (\<not> is_admin u \<longrightarrow>
        renderContent u (step s (TabChange ''admin'')) = LoginPage login_to_admin
        \<and> renderContent u (step s (TabChange ''admin'')) \<noteq> AdminDashboardPage)
   \<and> \<not> is_admin None
   \<and> is_admin (Some v) = (role v = ''admin'')"
  by (simp add: renderContent_admin setCurrentTab_def is_admin_def)

theorem admin_request_witness:
  "is_admin (Some \<lparr>role = ''admin''\<rparr>)
   \<and> renderContent (Some \<lparr>role = ''admin''\<rparr>) (step (mount [] None False) (TabChange ''admin''))
       = AdminDashboardPage
   \<and> \<not> is_admin (Some \<lparr>role = ''engineer''\<rparr>)
   \<and> renderContent (Some \<lparr>role = ''engineer''\<rparr>) (step (mount [] None False) (TabChange ''admin''))
       = LoginPage login_to_admin
   \<and> renderContent None (step (mount [] None False) (TabChange ''admin''))
       = LoginPage login_to_admin"
proof -
  have a: "is_admin (Some \<lparr>role = ''admin''\<rparr>)" by (simp add: is_admin_def)
  have b: "\<not> is_admin (Some \<lparr>role = ''engineer''\<rparr>)" by (simp add: is_admin_def)
  have c: "\<not> is_admin None" by (simp add: is_admin_def)
  from admin_request_renders_login_without_admin_role
        [of "mount [] None False" "Some \<lparr>role = ''admin''\<rparr>"] a
  have d: "renderContent (Some \<lparr>role = ''admin''\<rparr>)
      (step (mount [] None False) (TabChange ''admin'')) = AdminDashboardPage"
    by blast
  from admin_request_renders_login_without_admin_role
        [of "mount [] None False" "Some \<lparr>role = ''engineer''\<rparr>"] b
  have e: "renderContent (Some \<lparr>role = ''engineer''\<rparr>)
      (step (mount [] None False) (TabChange ''admin'')) = LoginPage login_to_admin"
    by blast
  from admin_request_renders_login_without_admin_role [of "mount [] None False" None] c
  have f: "renderContent None (step (mount [] None False) (TabChange ''admin''))
      = LoginPage login_to_admin"
    by blast
  show ?thesis by (intro conjI a b d e f)
qed

text \<open>With no session user, requesting the admin view leaves the view state at \<^verbatim>\<open>admin\<close>,
  not at \<^verbatim>\<open>login\<close>.\<close>

theorem admin_request_state_is_admin:
  "currentTab (step (mount [] None False) (TabChange ''admin'')) = ''admin''
   \<and> currentTab (step (mount [] None False) (TabChange ''admin'')) \<noteq> ''login''
   \<and> \<not> is_admin None"
  by (simp add: setCurrentTab_def is_admin_def)

section \<open>What one callback can do to the store and the Selection\<close>

lemma resume_cases:
  "handleSearch_resume outcome clock s = setIsSearching False s
   \<or> (\<exists>cs. synthesized clock cs \<noteq> []
         \<and> handleSearch_resume outcome clock s =
             setIsSearching False
               (setCurrentTab ''map''
                 (setSelectedAsset (Some (hd (synthesized clock cs)))
                   (setAssets (\<lambda>prev. prev @ synthesized clock cs) s))))"
proof (cases "no_usable_chunks outcome")
  case True
  then show ?thesis by (simp add: resume_no_usable)
next
  case False
  then obtain r cs where o: "outcome = Fulfilled r" and c: "chunks_of r = Some cs"
    and u: "\<exists>c\<in>set cs. maps c \<noteq> None"
    by (auto simp: no_usable_chunks_def list_all_iff split: provider_outcome.splits option.splits)
  from resume_usable(1) [OF c u, of clock s] resume_usable(2) [OF c u, of clock] o
  show ?thesis by blast
qed

lemma renderContent_LoginPage:
  "renderContent u s = LoginPage f \<Longrightarrow> f = login_by_role \<or> f = login_to_admin"
  by (auto simp: renderContent_def Let_def split: if_splits)

lemma step_LoginSuccess:
  "assets (step s (LoginSuccess u v)) = assets s
   \<and> selectedAsset (step s (LoginSuccess u v)) = selectedAsset s"
  by (auto simp: login_by_role_def login_to_admin_def setCurrentTab_def
        split: page.splits dest!: renderContent_LoginPage)

lemma settle_cases:
  "(assets (settle k outcome clock s) = assets s
      \<and> selectedAsset (settle k outcome clock s) = selectedAsset s)
   \<or> (\<exists>new. new \<noteq> [] \<and> assets (settle k outcome clock s) = assets s @ new
         \<and> selectedAsset (settle k outcome clock s) = Some (hd new))"
proof (cases "k < length (outstanding s)")
  case False
  then show ?thesis by (simp add: settle_def)
next
  case True
  let ?s = "s\<lparr>outstanding := take k (outstanding s) @ drop (Suc k) (outstanding s)\<rparr>"
  from resume_cases [of outcome clock ?s] show ?thesis
  proof
    assume "handleSearch_resume outcome clock ?s = setIsSearching False ?s"
    with True show ?thesis by (simp add: settle_def setIsSearching_def)
  next
    assume "\<exists>cs. synthesized clock cs \<noteq> []
         \<and> handleSearch_resume outcome clock ?s =
             setIsSearching False
               (setCurrentTab ''map''
                 (setSelectedAsset (Some (hd (synthesized clock cs)))
                   (setAssets (\<lambda>prev. prev @ synthesized clock cs) ?s)))"
    then obtain cs where "synthesized clock cs \<noteq> []"
      and "handleSearch_resume outcome clock ?s =
             setIsSearching False
               (setCurrentTab ''map''
                 (setSelectedAsset (Some (hd (synthesized clock cs)))
                   (setAssets (\<lambda>prev. prev @ synthesized clock cs) ?s)))"
      by blast
    with True have "synthesized clock cs \<noteq> []
        \<and> assets (settle k outcome clock s) = assets s @ synthesized clock cs
        \<and> selectedAsset (settle k outcome clock s) = Some (hd (synthesized clock cs))"
      by (simp add: settle_def setIsSearching_def setCurrentTab_def setSelectedAsset_def
            setAssets_def)
    then show ?thesis by blast
  qed
qed

lemma assets_handleSearch_begin:
  "assets (handleSearch_begin query issued s) = assets s"
  "selectedAsset (handleSearch_begin query issued s) = selectedAsset s"
  by (simp_all add: handleSearch_begin_def setIsSearching_def Let_def)

lemma assets_ToggleTheme:
  "assets (step s (ToggleTheme rendered)) = assets s"
  "selectedAsset (step s (ToggleTheme rendered)) = selectedAsset s"
  by (simp_all add: theme_effect_def toggleTheme_def setIsDarkMode_def Let_def)

lemma step_prefix: "prefix (assets s) (assets (step s e))"
proof (cases e)
  case (Settle k outcome clock)
  with settle_cases [of k outcome clock s] show ?thesis by auto
next
  case (LoginSuccess u v)
  with step_LoginSuccess [of s u v] show ?thesis by simp
next
  case (ToggleTheme rendered)
  then show ?thesis by (simp only: assets_ToggleTheme prefix_order.order_refl)
qed (simp_all add: setCurrentTab_def setSelectedAsset_def setIsSidebarOpen_def
       assets_handleSearch_begin)

lemma run_Cons: "run s (e # es) = run (step s e) es"
  by (simp add: run_def)

lemma run_Nil: "run s [] = s"
  by (simp add: run_def)

lemma run_prefix: "prefix (assets s) (assets (run s es))"
proof (induction es arbitrary: s)
  case Nil
  show ?case by (simp add: run_Nil)
next
  case (Cons e es)
  have "prefix (assets s) (assets (step s e))" by (rule step_prefix)
  also have "prefix (assets (step s e)) (assets (run (step s e) es))" by (rule Cons.IH)
  finally show ?case by (simp only: run_Cons)
qed

lemma selection_valid_iff:
  "selection_valid s \<longleftrightarrow> set_option (selectedAsset s) \<subseteq> set (assets s)"
  by (cases "selectedAsset s") (simp_all add: selection_valid_def)

lemma selection_valid_frame:
  "assets s' = assets s \<Longrightarrow> selectedAsset s' = selectedAsset s \<Longrightarrow> selection_valid s
     \<Longrightarrow> selection_valid s'"
  by (simp add: selection_valid_iff)

lemma selection_valid_step:
  assumes "selection_valid s" and "from_store s e"
  shows "selection_valid (step s e)"
proof (cases e)
  case (Settle k outcome clock)
  from settle_cases [of k outcome clock s] show ?thesis
  proof
    assume "assets (settle k outcome clock s) = assets s
      \<and> selectedAsset (settle k outcome clock s) = selectedAsset s"
    with assms(1) Settle show ?thesis
      by (auto intro: selection_valid_frame)
  next
    assume "\<exists>new. new \<noteq> [] \<and> assets (settle k outcome clock s) = assets s @ new
         \<and> selectedAsset (settle k outcome clock s) = Some (hd new)"
    with Settle show ?thesis by (auto simp: selection_valid_iff)
  qed
next
  case (LoginSuccess u v)
  with step_LoginSuccess [of s u v] assms(1) show ?thesis
    by (auto intro: selection_valid_frame)
next
  case (SelectAsset a)
  with assms(2) show ?thesis
    by (cases a) (simp_all add: selection_valid_iff from_store_def setSelectedAsset_def)
next
  case (GovSelectAsset a)
  with assms(2) show ?thesis
    by (simp add: selection_valid_iff from_store_def setSelectedAsset_def setCurrentTab_def)
next
  case (ToggleTheme rendered)
  with assms(1) show ?thesis
    by (simp only: selection_valid_iff assets_ToggleTheme)
qed (use assms(1) in \<open>simp_all add: selection_valid_iff setCurrentTab_def setSelectedAsset_def
       setIsSidebarOpen_def assets_handleSearch_begin\<close>)

section \<open>Selection\<close>

text \<open>
  Claim C7, as the code has it.  \<^verbatim>\<open>setSelectedAsset\<close> is the bare state setter: it is never
  rejected, and afterwards the Selection is what was passed, whatever the store holds.  The
  Selection is none or an asset of the store after every run in which it was so at the start
  and each asset passed to a selection callback was in the store at that moment; discovery
  keeps this by selecting an asset it has just appended.
\<close>

theorem selection_is_unchecked_and_valid_when_taken_from_store:
  "selectedAsset (step s (SelectAsset a)) = a
   \<and> assets (step s (SelectAsset a)) = assets s
   \<and> (selection_valid s \<and> selects_from_store s es \<longrightarrow> selection_valid (run s es))"
proof -
  have "selection_valid s \<Longrightarrow> selects_from_store s es \<Longrightarrow> selection_valid (run s es)"
  proof (induction es arbitrary: s)
    case Nil
    then show ?case by (simp add: run_Nil)
  next
    case (Cons e es)
    from Cons.prems have "selection_valid (step s e)" and "selects_from_store (step s e) es"
      by (simp_all add: selection_valid_step)
    then have "selection_valid (run (step s e) es)" by (rule Cons.IH)
    then show ?case by (simp only: run_Cons)
  qed
  then show ?thesis by (auto simp: setSelectedAsset_def)
qed

theorem selection_valid_witness:
  "selection_valid (mount [sample_asset] None False)
   \<and> selects_from_store (mount [sample_asset] None False)
        [SelectAsset (Some sample_asset), Search ''bridges'' True,
         Settle 0 (Fulfilled (response_of sample_chunks)) (\<lambda>i. 1700000000000)]
   \<and> selection_valid (run (mount [sample_asset] None False)
        [SelectAsset (Some sample_asset), Search ''bridges'' True,
         Settle 0 (Fulfilled (response_of sample_chunks)) (\<lambda>i. 1700000000000)])"
proof -
  have a: "selection_valid (mount [sample_asset] None False)"
    by (simp add: selection_valid_def mount_fields)
  have b: "selects_from_store (mount [sample_asset] None False)
        [SelectAsset (Some sample_asset), Search ''bridges'' True,
         Settle 0 (Fulfilled (response_of sample_chunks)) (\<lambda>i. 1700000000000)]"
    by (simp add: from_store_def mount_fields)
  from selection_is_unchecked_and_valid_when_taken_from_store
         [of "mount [sample_asset] None False" _
           "[SelectAsset (Some sample_asset), Search ''bridges'' True,
             Settle 0 (Fulfilled (response_of sample_chunks)) (\<lambda>i. 1700000000000)]"] a b
  have "selection_valid (run (mount [sample_asset] None False)
        [SelectAsset (Some sample_asset), Search ''bridges'' True,
         Settle 0 (Fulfilled (response_of sample_chunks)) (\<lambda>i. 1700000000000)])"
    by blast
  with a b show ?thesis by (intro conjI)
qed

text \<open>An asset that is not in the store is selected without complaint.\<close>

theorem foreign_asset_is_selected:
  "sample_asset \<notin> set (assets (mount [] None False))
   \<and> selectedAsset (step (mount [] None False) (SelectAsset (Some sample_asset)))
       = Some sample_asset
   \<and> \<not> selection_valid (step (mount [] None False) (SelectAsset (Some sample_asset)))"
  by (simp add: selection_valid_def setSelectedAsset_def mount_fields)

section \<open>The store only grows\<close>

text \<open>
  Claim C8.  Over every sequence of callbacks of the component (tab changes, selections,
  logins, theme toggles, sidebar, searches started and settled) the store at the start is an
  initial segment of the store at the end: entries are appended, and none is removed,
  replaced or reordered.  In particular every asset present before is present after.
\<close>

theorem store_only_grows:
  "prefix (assets s) (assets (run s es))
   \<and> set (assets s) \<subseteq> set (assets (run s es))
   \<and> take (length (assets s)) (assets (run s es)) = assets s"
proof -
  have p: "prefix (assets s) (assets (run s es))" by (rule run_prefix)
  then have "set (assets s) \<subseteq> set (assets (run s es))" by (rule set_mono_prefix)
  moreover from p have "take (length (assets s)) (assets (run s es)) = assets s"
    by (auto simp: prefix_def)
  ultimately show ?thesis using p by blast
qed

section \<open>Theme\<close>

text \<open>
  Claim C9, as the code has it.  With a window, the initial theme is true when the stored item
  is \<^verbatim>\<open>dark\<close>, the dark-mode preference of the operating system when no item is stored or
  the stored item is the empty string, and false for every other stored value; without a
  window it is false.  The toggle callback writes the negation of the value that
  \<^verbatim>\<open>isDarkMode\<close> had at the render that made the callback: it flips the current value when it
  comes from the render of the current state, and a second call of the same callback writes
  the same value again.  After a toggle that changed the value the effect has written the new
  value to the store as \<^verbatim>\<open>dark\<close> or \<^verbatim>\<open>light\<close>, from which the initialiser returns the value
  toggled to.  The state write cannot fail; the storage read, the media query and the storage
  write are not guarded, and an exception of theirs leaves the initialiser or the effect.
\<close>

theorem theme_initialised_from_store_and_toggled_from_render:
  "initial_theme has_window (Inr stored) (Inr prefers_dark)
       = Inr (initial_isDarkMode has_window stored prefers_dark)
   \<and> initial_theme True (Inr (Some v)) matches
       = (if v = ''dark'' then Inr True else if v = [] then matches else Inr False)
   \<and> initial_theme True (Inr None) matches = matches
   \<and> initial_theme False getItem matches = Inr False
   \<and> initial_theme True (Inl e) matches = Inl e
   \<and> isDarkMode (mount initialAssets stored prefers_dark)
       = initial_isDarkMode True stored prefers_dark
   \<and> isDarkMode (toggleTheme rendered s) = (\<not> rendered)
   \<and> toggleTheme rendered (toggleTheme rendered s) = toggleTheme rendered s
   \<and> step (step s (ToggleTheme rendered)) (ToggleTheme rendered) = step s (ToggleTheme rendered)
   \<and> isDarkMode (step s (ToggleTheme (isDarkMode s))) = (\<not> isDarkMode s)
   \<and> theme_item (step s (ToggleTheme (isDarkMode s)))
       = Some (if isDarkMode s then ''light'' else ''dark'')
   \<and> dark_class (step s (ToggleTheme (isDarkMode s))) = (\<not> isDarkMode s)
   \<and> initial_theme True (Inr (theme_item (step s (ToggleTheme (isDarkMode s))))) matches
       = Inr (isDarkMode (step s (ToggleTheme (isDarkMode s))))
   \<and> theme_effect_outcome True s = Inr (theme_effect s)
   \<and> theme_effect_outcome False s = Inl StorageError"
proof -
  have i: "initial_theme has_window (Inr stored) (Inr prefers_dark)
       = Inr (initial_isDarkMode has_window stored prefers_dark)"
    by (simp add: initial_theme_def initial_isDarkMode_def)
  have v: "initial_theme True (Inr (Some v)) matches
       = (if v = ''dark'' then Inr True else if v = [] then matches else Inr False)"
    by (simp add: initial_theme_def truthy_def)
  have n: "initial_theme True (Inr None) matches = matches"
    "initial_theme False getItem matches = Inr False"
    "initial_theme True (Inl e) matches = Inl e"
    by (simp_all add: initial_theme_def truthy_def)
  have t: "isDarkMode (toggleTheme rendered s) = (\<not> rendered)"
    "toggleTheme rendered (toggleTheme rendered s) = toggleTheme rendered s"
    by (simp_all add: toggleTheme_def setIsDarkMode_def)
  have tt: "step (step s (ToggleTheme rendered)) (ToggleTheme rendered)
      = step s (ToggleTheme rendered)"
    by (simp add: toggleTheme_def setIsDarkMode_def theme_effect_def Let_def)
  have c: "isDarkMode (step s (ToggleTheme (isDarkMode s))) = (\<not> isDarkMode s)"
    "theme_item (step s (ToggleTheme (isDarkMode s)))
       = Some (if isDarkMode s then ''light'' else ''dark'')"
    "dark_class (step s (ToggleTheme (isDarkMode s))) = (\<not> isDarkMode s)"
    by (simp_all add: toggleTheme_def setIsDarkMode_def theme_effect_def Let_def)
  have r: "initial_theme True (Inr (theme_item (step s (ToggleTheme (isDarkMode s))))) matches
       = Inr (isDarkMode (step s (ToggleTheme (isDarkMode s))))"
    unfolding c by (simp add: initial_theme_def truthy_def)
  have o: "theme_effect_outcome True s = Inr (theme_effect s)"
    "theme_effect_outcome False s = Inl StorageError"
    by (simp_all add: theme_effect_outcome_def)
  show ?thesis
    by (intro conjI i v n mount_fields(6) t tt c r o)
qed

theorem theme_witness:
  "initial_theme True (Inr (Some ''solarized'')) (Inr True) = Inr False
   \<and> initial_theme True (Inr (Some [])) (Inr True) = Inr True
   \<and> initial_theme True (Inr None) (Inl MatchMediaError) = Inl MatchMediaError
   \<and> isDarkMode (mount [] None True) = True
   \<and> isDarkMode (step (mount [] None True) (ToggleTheme True)) = False
   \<and> theme_item (step (mount [] None True) (ToggleTheme True)) = Some ''light''
   \<and> isDarkMode (step (step (mount [] None True) (ToggleTheme True)) (ToggleTheme False)) = True
   \<and> theme_item (step (step (mount [] None True) (ToggleTheme True)) (ToggleTheme False))
       = Some ''dark''"
proof -
  let ?m = "mount [] None True"
  let ?n = "step (mount [] None True) (ToggleTheme True)"
  have "initial_theme True (Inr (Some ''solarized'')) (Inr True)
      = (if ''solarized'' = ''dark'' then Inr True
         else if ''solarized'' = [] then Inr True else Inr False)"
    using theme_initialised_from_store_and_toggled_from_render
            [where v = "''solarized''" and matches = "Inr True"]
    by blast
  then have a: "initial_theme True (Inr (Some ''solarized'')) (Inr True) = Inr False"
    by simp
  have "initial_theme True (Inr (Some [])) (Inr True)
      = (if [] = ''dark'' then Inr True else if [] = ([]::string) then Inr True else Inr False)"
    using theme_initialised_from_store_and_toggled_from_render
            [where v = "[]" and matches = "Inr True"]
    by blast
  then have b: "initial_theme True (Inr (Some [])) (Inr True) = Inr True"
    by simp
  have c: "initial_theme True (Inr None) (Inl MatchMediaError) = Inl MatchMediaError"
    using theme_initialised_from_store_and_toggled_from_render
            [where matches = "Inl MatchMediaError"]
    by blast
  have "isDarkMode ?m = initial_isDarkMode True None True"
    using theme_initialised_from_store_and_toggled_from_render
            [where initialAssets = "[]" and stored = None and prefers_dark = True]
    by blast
  then have d: "isDarkMode ?m = True"
    by (simp add: initial_isDarkMode_def truthy_def)
  have "isDarkMode (step ?m (ToggleTheme (isDarkMode ?m))) = (\<not> isDarkMode ?m)"
    and "theme_item (step ?m (ToggleTheme (isDarkMode ?m)))
      = Some (if isDarkMode ?m then ''light'' else ''dark'')"
    using theme_initialised_from_store_and_toggled_from_render [where s = ?m]
    by blast+
  then have e: "isDarkMode ?n = False" "theme_item ?n = Some ''light''"
    by (simp_all only: d simp_thms if_True)
  have "isDarkMode (step ?n (ToggleTheme (isDarkMode ?n))) = (\<not> isDarkMode ?n)"
    and "theme_item (step ?n (ToggleTheme (isDarkMode ?n)))
      = Some (if isDarkMode ?n then ''light'' else ''dark'')"
    using theme_initialised_from_store_and_toggled_from_render [where s = ?n]
    by blast+
  then have f: "isDarkMode (step ?n (ToggleTheme False)) = True"
    "theme_item (step ?n (ToggleTheme False)) = Some ''dark''"
    by (simp_all only: e simp_thms if_False)
  show ?thesis by (intro conjI a b c d e f)
qed

text \<open>
  From a light start the callback made by the first render is called twice: the second call
  does not flip the value back.  And when the storage refuses the write, the effect that
  follows a toggle throws.
\<close>

theorem toggle_of_one_render_flips_once:
  "isDarkMode (mount [] None False) = False
   \<and> isDarkMode (run (mount [] None False) [ToggleTheme False]) = True
   \<and> isDarkMode (run (mount [] None False) [ToggleTheme False, ToggleTheme False]) = True
   \<and> theme_effect_outcome False (toggleTheme False (mount [] None False)) = Inl StorageError"
  by (simp add: run_def mount_fields initial_isDarkMode_def truthy_def toggleTheme_def
        setIsDarkMode_def theme_effect_def theme_effect_outcome_def Let_def)

section \<open>Logging in\<close>

text \<open>
  Claim C10.  When the current tab is \<^verbatim>\<open>admin\<close> and the session user is absent or not an
  admin, the page shown is a login page whose success callback sets the current tab to
  \<^verbatim>\<open>admin\<close> for every user it is called with, whatever that user's role; the role is looked at
  again only when the \<^verbatim>\<open>admin\<close> tab is rendered next, which shows the dashboard exactly when
  the session user then is an admin.  The login page of the \<^verbatim>\<open>login\<close> tab sends users with
  the role \<^verbatim>\<open>admin\<close> to \<^verbatim>\<open>admin\<close> and all others to \<^verbatim>\<open>home\<close>.  What each callback writes
  does not depend on the state it is called in: the callback of the gate's login page sets
  the tab to \<^verbatim>\<open>admin\<close> from every state, and that of the \<^verbatim>\<open>login\<close> tab routes by role from
  every state.
\<close>

theorem login_from_admin_gate_goes_to_admin:
  "(currentTab s = ''admin'' \<and> \<not> is_admin u \<longrightarrow>
      renderContent u s = LoginPage login_to_admin
      \<and> currentTab (login_to_admin v s) = ''admin''
      \<and> currentTab (step s (LoginSuccess u v)) = ''admin''
      \<and> (renderContent u' (step s (LoginSuccess u v)) = AdminDashboardPage \<longleftrightarrow> is_admin u'))
   \<and> (currentTab s = ''login'' \<longrightarrow>
      renderContent u s = LoginPage login_by_role
      \<and> currentTab (step s (LoginSuccess u v))
          = (if role v = ''admin'' then ''admin'' else ''home''))
   \<and> currentTab (login_to_admin v s') = ''admin''
   \<and> login_to_admin v s' = setCurrentTab ''admin'' s'
   \<and> (renderContent u' (login_to_admin v s') = AdminDashboardPage \<longleftrightarrow> is_admin u')
   \<and> currentTab (login_by_role v s') = (if role v = ''admin'' then ''admin'' else ''home'')"
  by (auto simp: renderContent_admin renderContent_login login_to_admin_def login_by_role_def
        setCurrentTab_def)

theorem login_witness:
  "currentTab (step (mount [] None False) (TabChange ''admin'')) = ''admin''
   \<and> \<not> is_admin None
   \<and> currentTab (step (step (mount [] None False) (TabChange ''admin''))
        (LoginSuccess None \<lparr>role = ''engineer''\<rparr>)) = ''admin''
   \<and> currentTab (step (mount [] None False) (TabChange ''login'')) = ''login''
   \<and> currentTab (step (step (mount [] None False) (TabChange ''login''))
        (LoginSuccess None \<lparr>role = ''engineer''\<rparr>)) = ''home''
   \<and> currentTab (step (step (mount [] None False) (TabChange ''login''))
        (LoginSuccess None \<lparr>role = ''admin''\<rparr>)) = ''admin''
   \<and> currentTab (login_to_admin \<lparr>role = ''engineer''\<rparr> (mount [] None False)) = ''admin''"
proof -
  have g: "currentTab (login_to_admin \<lparr>role = ''engineer''\<rparr> (mount [] None False)) = ''admin''"
    using login_from_admin_gate_goes_to_admin
            [where s' = "mount [] None False" and v = "\<lparr>role = ''engineer''\<rparr>"]
    by blast
  have a: "currentTab (step (mount [] None False) (TabChange ''admin'')) = ''admin''"
    by (simp add: setCurrentTab_def)
  have b: "\<not> is_admin None" by (simp add: is_admin_def)
  have c: "currentTab (step (mount [] None False) (TabChange ''login'')) = ''login''"
    by (simp add: setCurrentTab_def)
  from login_from_admin_gate_goes_to_admin
         [where s = "step (mount [] None False) (TabChange ''admin'')" and u = None
            and v = "\<lparr>role = ''engineer''\<rparr>"] a b
  have d: "currentTab (step (step (mount [] None False) (TabChange ''admin''))
        (LoginSuccess None \<lparr>role = ''engineer''\<rparr>)) = ''admin''"
    by blast
  from login_from_admin_gate_goes_to_admin
         [where s = "step (mount [] None False) (TabChange ''login'')" and u = None
            and v = "\<lparr>role = ''engineer''\<rparr>"] c
  have "currentTab (step (step (mount [] None False) (TabChange ''login''))
        (LoginSuccess None \<lparr>role = ''engineer''\<rparr>))
      = (if role \<lparr>role = ''engineer''\<rparr> = ''admin'' then ''admin'' else ''home'')"
    by blast
  then have e: "currentTab (step (step (mount [] None False) (TabChange ''login''))
        (LoginSuccess None \<lparr>role = ''engineer''\<rparr>)) = ''home''"
    by (simp del: step.simps)
  from login_from_admin_gate_goes_to_admin
         [where s = "step (mount [] None False) (TabChange ''login'')" and u = None
            and v = "\<lparr>role = ''admin''\<rparr>"] c
  have "currentTab (step (step (mount [] None False) (TabChange ''login''))
        (LoginSuccess None \<lparr>role = ''admin''\<rparr>))
      = (if role \<lparr>role = ''admin''\<rparr> = ''admin'' then ''admin'' else ''home'')"
    by blast
  then have f: "currentTab (step (step (mount [] None False) (TabChange ''login''))
        (LoginSuccess None \<lparr>role = ''admin''\<rparr>)) = ''admin''"
    by (simp del: step.simps)
  show ?thesis by (intro conjI a b c d e f g)
qed

end
